theory Spec2Isabelle
  imports Complex_Main
begin

section \<open>Python values shared by the pipelines\<close>

text \<open>
  Text is modelled as ASCII \<^typ>\<open>string\<close>s.  On ASCII text
  \<^verbatim>\<open>unicodedata.normalize("NFKD", s)\<close> is the identity and
  \<^verbatim>\<open>s.encode("ascii", "ignore").decode("ascii")\<close> drops nothing.
  Numbers read by \<^verbatim>\<open>float\<close> are kept as the exact decimal value of the
  literal (a \<^typ>\<open>rat\<close>); the IEEE rounding of that value is not modelled.
\<close>

text \<open>Exceptions: the class, the message (\<^verbatim>\<open>str(exc)\<close>) and, for the wrapped
  error of the retry loops, the cause given by \<^verbatim>\<open>raise ... from last_error\<close>.\<close>

datatype exn =
    ValueError string
  | TypeError string
  | RuntimeError string "exn option"
  | OtherError string

fun exn_str :: "exn \<Rightarrow> string" where
  "exn_str (ValueError m) = m"
| "exn_str (TypeError m) = m"
| "exn_str (RuntimeError m c) = m"
| "exn_str (OtherError m) = m"

text \<open>Identifiers handed out by the store: integers or strings, tested with
  \<^verbatim>\<open>if not x\<close>.\<close>

datatype dbid = IdInt int | IdStr string

fun truthy_id :: "dbid option \<Rightarrow> bool" where
  "truthy_id None = False"
| "truthy_id (Some (IdInt n)) = (n \<noteq> 0)"
| "truthy_id (Some (IdStr s)) = (s \<noteq> [])"

text \<open>\<^verbatim>\<open>x or ""\<close> on an optional string.\<close>

fun or_empty :: "string option \<Rightarrow> string" where
  "or_empty None = []"
| "or_empty (Some s) = s"

subsection \<open>Characters and the \<^verbatim>\<open>str\<close> methods the code uses\<close>

definition is_space :: "char \<Rightarrow> bool" where
  "is_space c = (c \<in> set [CHR 0x09, CHR 0x0A, CHR 0x0B, CHR 0x0C, CHR 0x0D,
                           CHR 0x1C, CHR 0x1D, CHR 0x1E, CHR 0x1F, CHR 0x20])"

definition is_digit :: "char \<Rightarrow> bool" where
  "is_digit c = (c \<in> set ''0123456789'')"

definition is_upper :: "char \<Rightarrow> bool" where
  "is_upper c = (c \<in> set ''ABCDEFGHIJKLMNOPQRSTUVWXYZ'')"

definition is_lower :: "char \<Rightarrow> bool" where
  "is_lower c = (c \<in> set ''abcdefghijklmnopqrstuvwxyz'')"

text \<open>\<^verbatim>\<open>\w\<close> of the \<^verbatim>\<open>re\<close> module.\<close>

definition is_word :: "char \<Rightarrow> bool" where
  "is_word c = (is_digit c \<or> is_upper c \<or> is_lower c \<or> c = CHR ''_'')"

definition lower_char :: "char \<Rightarrow> char" where
  "lower_char c =
     (case map_of (zip ''ABCDEFGHIJKLMNOPQRSTUVWXYZ'' ''abcdefghijklmnopqrstuvwxyz'') c of
        Some d \<Rightarrow> d | None \<Rightarrow> c)"

definition upper_char :: "char \<Rightarrow> char" where
  "upper_char c =
     (case map_of (zip ''abcdefghijklmnopqrstuvwxyz'' ''ABCDEFGHIJKLMNOPQRSTUVWXYZ'') c of
        Some d \<Rightarrow> d | None \<Rightarrow> c)"

definition lower :: "string \<Rightarrow> string" where
  "lower s = map lower_char s"

definition upper :: "string \<Rightarrow> string" where
  "upper s = map upper_char s"

text \<open>\<^verbatim>\<open>s.strip()\<close> and \<^verbatim>\<open>s.strip(chars)\<close>.\<close>

definition strip_chars :: "(char \<Rightarrow> bool) \<Rightarrow> string \<Rightarrow> string" where
  "strip_chars P s = rev (dropWhile P (rev (dropWhile P s)))"

definition strip :: "string \<Rightarrow> string" where
  "strip s = strip_chars is_space s"

text \<open>\<^verbatim>\<open>s.startswith(p)\<close>.\<close>

fun startswith :: "string \<Rightarrow> string \<Rightarrow> bool" where
  "startswith s [] = True"
| "startswith [] (p # ps) = False"
| "startswith (c # cs) (p # ps) = (c = p \<and> startswith cs ps)"


text \<open>\<^verbatim>\<open>sub in s\<close>.\<close>

fun contains :: "string \<Rightarrow> string \<Rightarrow> bool" where
  "contains [] sub = (sub = [])"
| "contains (c # cs) sub = (startswith (c # cs) sub \<or> contains cs sub)"

text \<open>\<^verbatim>\<open>s.find(sub)\<close>: the least index where \<^verbatim>\<open>sub\<close> starts, or \<open>-1\<close>.\<close>

fun find_from :: "nat \<Rightarrow> string \<Rightarrow> string \<Rightarrow> int" where
  "find_from i [] sub = (if sub = [] then int i else -1)"
| "find_from i (c # cs) sub =
     (if startswith (c # cs) sub then int i else find_from (Suc i) cs sub)"

definition find :: "string \<Rightarrow> string \<Rightarrow> int" where
  "find s sub = find_from 0 s sub"

text \<open>\<^verbatim>\<open>s.rfind(sub)\<close>: the greatest such index, or \<open>-1\<close>.\<close>

fun rfind_from :: "nat \<Rightarrow> string \<Rightarrow> string \<Rightarrow> int" where
  "rfind_from i [] sub = (if sub = [] then int i else -1)"
| "rfind_from i (c # cs) sub =
     (let r = rfind_from (Suc i) cs sub
      in if r \<noteq> -1 then r else if startswith (c # cs) sub then int i else -1)"

definition rfind :: "string \<Rightarrow> string \<Rightarrow> int" where
  "rfind s sub = rfind_from 0 s sub"

text \<open>\<^verbatim>\<open>s.replace(old, new)\<close> for a one-character \<^verbatim>\<open>old\<close>.\<close>

definition replace :: "char \<Rightarrow> string \<Rightarrow> string \<Rightarrow> string" where
  "replace old new s = concat (map (\<lambda>c. if c = old then new else [c]) s)"

text \<open>\<^verbatim>\<open>s.split()\<close>: the maximal runs of non-whitespace characters.\<close>

fun split_ws_acc :: "string \<Rightarrow> string \<Rightarrow> string list" where
  "split_ws_acc w [] = (if w = [] then [] else [rev w])"
| "split_ws_acc w (c # cs) =
     (if is_space c then (if w = [] then split_ws_acc [] cs else rev w # split_ws_acc [] cs)
      else split_ws_acc (c # w) cs)"

definition split_ws :: "string \<Rightarrow> string list" where
  "split_ws s = split_ws_acc [] s"

text \<open>\<^verbatim>\<open>" ".join(words)\<close>.\<close>

fun join_sp :: "string list \<Rightarrow> string" where
  "join_sp [] = []"
| "join_sp [w] = w"
| "join_sp (w # v # ws) = w @ '' '' @ join_sp (v # ws)"

text \<open>\<^verbatim>\<open>s.split(":", 1)[0]\<close>: the text before the first colon.\<close>

definition before_first :: "char \<Rightarrow> string \<Rightarrow> string" where
  "before_first d s = takeWhile (\<lambda>c. c \<noteq> d) s"

text \<open>\<^verbatim>\<open>text.splitlines()\<close>: the boundaries are \<^verbatim>\<open>\n\<close>, \<^verbatim>\<open>\r\<close>,
  \<^verbatim>\<open>\r\n\<close>, \<^verbatim>\<open>\v\<close>, \<^verbatim>\<open>\f\<close>, \<^verbatim>\<open>\x1c\<close>, \<^verbatim>\<open>\x1d\<close> and \<^verbatim>\<open>\x1e\<close>;
  no empty last line is produced after a final boundary.\<close>

definition is_linebreak :: "char \<Rightarrow> bool" where
  "is_linebreak c = (c \<in> set [CHR 0x0A, CHR 0x0B, CHR 0x0C, CHR 0x0D, CHR 0x1C, CHR 0x1D, CHR 0x1E])"

fun splitlines_acc :: "string \<Rightarrow> string \<Rightarrow> string list" where
  "splitlines_acc w [] = (if w = [] then [] else [rev w])"
| "splitlines_acc w [c] = (if is_linebreak c then [rev w] else [rev (c # w)])"
| "splitlines_acc w (c # d # cs) =
     (if c = CHR 0x0D \<and> d = CHR 0x0A then rev w # splitlines_acc [] cs
      else if is_linebreak c then rev w # splitlines_acc [] (d # cs)
      else splitlines_acc (c # w) (d # cs))"

definition splitlines :: "string \<Rightarrow> string list" where
  "splitlines s = splitlines_acc [] s"


section \<open>Regular expressions of the \<^verbatim>\<open>re\<close> module\<close>

text \<open>
  Patterns are kept as syntax trees and matched as \<^verbatim>\<open>re\<close> does, by backtracking: the
  matcher returns every way to match at the current position, in the order in which the
  backtracking engine tries them (greedy repetition first), so that the head of the list is
  the match that \<^verbatim>\<open>re\<close> reports.  A matcher state is the character before the position
  (for \<^verbatim>\<open>\b\<close> and \<^verbatim>\<open>^\<close>), the text left, and the groups captured so far.
\<close>

datatype cclass =
    CLit char         \<comment> \<open>a literal character\<close>
  | CLitI char        \<comment> \<open>a literal letter under \<^verbatim>\<open>re.IGNORECASE\<close>, given in lower case\<close>
  | CDigit            \<comment> \<open>\<^verbatim>\<open>\d\<close>\<close>
  | CSpace            \<comment> \<open>\<^verbatim>\<open>\s\<close>\<close>
  | CAny              \<comment> \<open>\<^verbatim>\<open>.\<close>: any character but a newline\<close>
  | CNoneOf string    \<comment> \<open>\<^verbatim>\<open>[^...]\<close>\<close>
  | COneOf string     \<comment> \<open>\<^verbatim>\<open>[...]\<close>\<close>
  | COneOfI string    \<comment> \<open>\<^verbatim>\<open>[...]\<close> under \<^verbatim>\<open>re.IGNORECASE\<close>, given in lower case\<close>

fun cmatch :: "cclass \<Rightarrow> char \<Rightarrow> bool" where
  "cmatch (CLit a) c = (c = a)"
| "cmatch (CLitI a) c = (lower_char c = a)"
| "cmatch CDigit c = is_digit c"
| "cmatch CSpace c = is_space c"
| "cmatch CAny c = (c \<noteq> CHR 0x0A)"
| "cmatch (CNoneOf cs) c = (c \<notin> set cs)"
| "cmatch (COneOf cs) c = (c \<in> set cs)"
| "cmatch (COneOfI cs) c = (lower_char c \<in> set cs)"

datatype re =
    Chr cclass
  | Seq re re
  | Alt re re                  \<comment> \<open>\<^verbatim>\<open>a|b\<close>\<close>
  | Opt re                     \<comment> \<open>\<^verbatim>\<open>a?\<close>\<close>
  | Rep nat "nat option" re    \<comment> \<open>\<^verbatim>\<open>a{m,n}\<close>; \<^verbatim>\<open>a*\<close> is \<open>Rep 0 None\<close>, \<^verbatim>\<open>a+\<close> is \<open>Rep 1 None\<close>\<close>
  | Grp re                     \<comment> \<open>a capturing group\<close>
  | Bol                        \<comment> \<open>\<^verbatim>\<open>^\<close>\<close>
  | Eol                        \<comment> \<open>\<^verbatim>\<open>$\<close>, on text without newlines\<close>
  | WordB                      \<comment> \<open>\<^verbatim>\<open>\b\<close>\<close>

type_synonym mst = "char option \<times> string \<times> string list"

text \<open>Greedy repetition: at least \<open>lo\<close> and at most \<open>hi\<close> rounds of \<open>m\<close>, more rounds
  tried first.\<close>

fun rep :: "(mst \<Rightarrow> mst list) \<Rightarrow> nat \<Rightarrow> nat \<Rightarrow> mst \<Rightarrow> mst list" where
  "rep m lo 0 st = (if lo = 0 then [st] else [])"
| "rep m lo (Suc hi) st =
     concat (map (rep m (lo - 1) hi) (m st)) @ (if lo = 0 then [st] else [])"

text \<open>Every repeated pattern of this repository consumes a character in each round, so an
  unbounded repetition makes no more rounds than there are characters left.\<close>

fun rmatch :: "re \<Rightarrow> mst \<Rightarrow> mst list" where
  "rmatch (Chr k) (p, s, g) =
     (case s of [] \<Rightarrow> [] | c # cs \<Rightarrow> if cmatch k c then [(Some c, cs, g)] else [])"
| "rmatch (Seq a b) st = concat (map (rmatch b) (rmatch a st))"
| "rmatch (Alt a b) st = rmatch a st @ rmatch b st"
| "rmatch (Opt a) st = rmatch a st @ [st]"
| "rmatch (Rep lo hi a) (p, s, g) =
     rep (rmatch a) lo (case hi of Some h \<Rightarrow> h | None \<Rightarrow> length s) (p, s, g)"
| "rmatch (Grp a) (p, s, g) =
     map (\<lambda>(p', s', g'). (p', s', g' @ [take (length s - length s') s])) (rmatch a (p, s, g))"
| "rmatch Bol (p, s, g) = (if p = None then [(p, s, g)] else [])"
| "rmatch Eol (p, s, g) = (if s = [] then [(p, s, g)] else [])"
| "rmatch WordB (p, s, g) =
     (if (case p of None \<Rightarrow> False | Some c \<Rightarrow> is_word c)
         \<noteq> (case s of [] \<Rightarrow> False | c # cs \<Rightarrow> is_word c)
      then [(p, s, g)] else [])"

text \<open>A literal word, and a sequence of patterns.\<close>

fun seqs :: "re list \<Rightarrow> re" where
  "seqs [] = Rep 0 (Some 0) Bol"
| "seqs [r] = r"
| "seqs (r # rs) = Seq r (seqs rs)"

definition lit :: "string \<Rightarrow> re" where
  "lit w = seqs (map (\<lambda>c. Chr (CLit c)) w)"

definition litI :: "string \<Rightarrow> re" where
  "litI w = seqs (map (\<lambda>c. Chr (CLitI c)) w)"

fun alts :: "re list \<Rightarrow> re" where
  "alts [] = Chr (COneOf [])"
| "alts [r] = r"
| "alts (r # rs) = Alt r (alts rs)"

text \<open>The match found at the current position: the length matched and the groups.\<close>

definition match_here :: "re \<Rightarrow> char option \<Rightarrow> string \<Rightarrow> (nat \<times> string list) option" where
  "match_here r p s =
     (case rmatch r (p, s, []) of
        [] \<Rightarrow> None
      | (p', s', g) # ms \<Rightarrow> Some (length s - length s', g))"

text \<open>\<^verbatim>\<open>pattern.match(s)\<close>: the groups, when the pattern matches at the start.\<close>

definition re_match :: "re \<Rightarrow> string \<Rightarrow> (nat \<times> string list) option" where
  "re_match r s = match_here r None s"

text \<open>\<^verbatim>\<open>pattern.search(s)\<close>: the start and the length of the leftmost match, and its
  groups.\<close>

fun search_from :: "re \<Rightarrow> nat \<Rightarrow> char option \<Rightarrow> string \<Rightarrow> (nat \<times> nat \<times> string list) option" where
  "search_from r i p [] =
     (case match_here r p [] of None \<Rightarrow> None | Some (n, g) \<Rightarrow> Some (i, n, g))"
| "search_from r i p (c # cs) =
     (case match_here r p (c # cs) of
        Some (n, g) \<Rightarrow> Some (i, n, g)
      | None \<Rightarrow> search_from r (Suc i) (Some c) cs)"

definition re_search :: "re \<Rightarrow> string \<Rightarrow> (nat \<times> nat \<times> string list) option" where
  "re_search r s = search_from r 0 None s"

text \<open>\<^verbatim>\<open>pattern.findall(s)\<close> for a pattern without capturing groups: the matched
  texts, left to right, without overlap.  The first argument counts the characters still
  inside the last match.  No pattern used with \<^verbatim>\<open>findall\<close> here matches the empty
  string.\<close>

fun findall_from :: "re \<Rightarrow> nat \<Rightarrow> char option \<Rightarrow> string \<Rightarrow> string list" where
  "findall_from r k p [] = []"
| "findall_from r (Suc k) p (c # cs) = findall_from r k (Some c) cs"
| "findall_from r 0 p (c # cs) =
     (case match_here r p (c # cs) of
        None \<Rightarrow> findall_from r 0 (Some c) cs
      | Some (n, g) \<Rightarrow> take n (c # cs) # findall_from r (n - 1) (Some c) cs)"

definition re_findall :: "re \<Rightarrow> string \<Rightarrow> string list" where
  "re_findall r s = findall_from r 0 None s"

text \<open>\<^verbatim>\<open>pattern.sub("", s)\<close>: the text with every match removed.\<close>

fun sub_from :: "re \<Rightarrow> nat \<Rightarrow> char option \<Rightarrow> string \<Rightarrow> string" where
  "sub_from r k p [] = []"
| "sub_from r (Suc k) p (c # cs) = sub_from r k (Some c) cs"
| "sub_from r 0 p (c # cs) =
     (case match_here r p (c # cs) of
        None \<Rightarrow> c # sub_from r 0 (Some c) cs
      | Some (n, g) \<Rightarrow> (if n = 0 then c # sub_from r 0 (Some c) cs
                        else sub_from r (n - 1) (Some c) cs))"

definition re_sub_empty :: "re \<Rightarrow> string \<Rightarrow> string" where
  "re_sub_empty r s = sub_from r 0 None s"

subsection \<open>The texts a pattern can match\<close>

text \<open>The set of texts that a pattern can consume, whatever the context: an upper bound of
  what the matcher returns, used to reason about every match at once.\<close>

fun pow :: "string set \<Rightarrow> nat \<Rightarrow> string set" where
  "pow A 0 = {[]}"
| "pow A (Suc n) = {u @ v | u v. u \<in> A \<and> v \<in> pow A n}"

fun lang :: "re \<Rightarrow> string set" where
  "lang (Chr k) = {[c] | c. cmatch k c}"
| "lang (Seq a b) = {u @ v | u v. u \<in> lang a \<and> v \<in> lang b}"
| "lang (Alt a b) = lang a \<union> lang b"
| "lang (Opt a) = insert [] (lang a)"
| "lang (Rep lo hi a) =
     (\<Union>n \<in> {n. lo \<le> n \<and> (case hi of Some h \<Rightarrow> n \<le> h | None \<Rightarrow> True)}. pow (lang a) n)"
| "lang (Grp a) = lang a"
| "lang Bol = {[]}"
| "lang Eol = {[]}"
| "lang WordB = {[]}"

section \<open>The amount normalizer\<close>

subsection \<open>\<^verbatim>\<open>float(s)\<close>\<close>

text \<open>The result of \<^verbatim>\<open>float(s)\<close>: the exact decimal value of a finite literal, an
  infinity (\<open>True\<close> for the negative one) or a NaN.\<close>

datatype pyfloat = Finite rat | Infinity bool | NaN

text \<open>
  The grammar of the built-in, after stripping whitespace:
  \<^verbatim>\<open>[sign] (number [exponent] | "inf" | "infinity" | "nan")\<close> with
  \<^verbatim>\<open>number ::= [digitpart] "." digitpart | digitpart ["."]\<close>,
  \<^verbatim>\<open>digitpart ::= digit (["_"] digit)*\<close> and
  \<^verbatim>\<open>exponent ::= ("e" | "E") [sign] digitpart\<close>; \<^verbatim>\<open>inf\<close> and \<^verbatim>\<open>nan\<close> in any case.
\<close>

text \<open>The rest of a digit part, after a digit: its digits and the text that follows.\<close>

fun digitpart_rest :: "string \<Rightarrow> string \<times> string" where
  "digitpart_rest [] = ([], [])"
| "digitpart_rest [c] = (if is_digit c then ([c], []) else ([], [c]))"
| "digitpart_rest (c # d # cs) =
     (if is_digit c then (case digitpart_rest (d # cs) of (ds, r) \<Rightarrow> (c # ds, r))
      else if c = CHR ''_'' \<and> is_digit d then (case digitpart_rest cs of (ds, r) \<Rightarrow> (d # ds, r))
      else ([], c # d # cs))"

text \<open>The longest digit part at the start: its digits (none if the text does not start
  with a digit) and the text that follows.\<close>

fun digitpart :: "string \<Rightarrow> string \<times> string" where
  "digitpart [] = ([], [])"
| "digitpart (c # cs) =
     (if is_digit c then (case digitpart_rest cs of (ds, r) \<Rightarrow> (c # ds, r)) else ([], c # cs))"

definition digit_val :: "char \<Rightarrow> nat" where
  "digit_val c = of_char c - 48"

definition digits_val :: "string \<Rightarrow> nat" where
  "digits_val ds = foldl (\<lambda>a c. 10 * a + digit_val c) 0 ds"

text \<open>\<^verbatim>\<open>[sign]\<close>: whether a minus sign was read, and the rest.\<close>

fun take_sign :: "string \<Rightarrow> bool \<times> string" where
  "take_sign [] = (False, [])"
| "take_sign (c # cs) =
     (if c = CHR ''-'' then (True, cs) else if c = CHR ''+'' then (False, cs) else (False, c # cs))"

text \<open>\<^verbatim>\<open>[exponent]\<close> and the end of the text: the exponent read.\<close>

definition exponent_end :: "string \<Rightarrow> int option" where
  "exponent_end r =
     (case r of
        [] \<Rightarrow> Some 0
      | c # cs \<Rightarrow>
          if c = CHR ''e'' \<or> c = CHR ''E'' then
            (case take_sign cs of (neg, u) \<Rightarrow>
               (case digitpart u of (ds, rest) \<Rightarrow>
                  if ds \<noteq> [] \<and> rest = []
                  then Some (if neg then - int (digits_val ds) else int (digits_val ds))
                  else None))
          else None)"

text \<open>\<^verbatim>\<open>number [exponent]\<close> over the whole text: the value.\<close>

definition float_number :: "string \<Rightarrow> rat option" where
  "float_number u =
     (case digitpart u of (ip, r1) \<Rightarrow>
        (case (case r1 of c # cs \<Rightarrow> if c = CHR ''.'' then (True, digitpart cs) else (False, ([], r1))
                        | [] \<Rightarrow> (False, ([], r1))) of
           (dot, fp, r2) \<Rightarrow>
             if ip = [] \<and> fp = [] then None
             else (case exponent_end r2 of
                     None \<Rightarrow> None
                   | Some e \<Rightarrow>
                       Some (of_nat (digits_val (ip @ fp)) * 10 powi (e - int (length fp))))))"

definition py_float :: "string \<Rightarrow> exn + pyfloat" where
  "py_float s =
     (case take_sign (strip s) of (neg, u) \<Rightarrow>
        if lower u = ''inf'' \<or> lower u = ''infinity'' then Inr (Infinity neg)
        else if lower u = ''nan'' then Inr NaN
        else (case float_number u of
                None \<Rightarrow> Inl (ValueError (''could not convert string to float: '' @ [CHR 0x27] @ s @ [CHR 0x27]))
              | Some v \<Rightarrow> Inr (Finite (if neg then - v else v))))"



subsection \<open>\<^verbatim>\<open>parse_amount_ar\<close> and \<^verbatim>\<open>find_amounts\<close> (\<^verbatim>\<open>pipeline/parsers/common.py\<close>)\<close>

text \<open>\<^verbatim>\<open>-?\d{1,3}(?:\.\d{3})*(?:,\d{2})\<close>\<close>

definition AMOUNT_RE :: re where
  "AMOUNT_RE =
     seqs [Opt (Chr (CLit CHR ''-'')),
           Rep 1 (Some 3) (Chr CDigit),
           Rep 0 None (Seq (Chr (CLit CHR ''.'')) (Rep 3 (Some 3) (Chr CDigit))),
           Seq (Chr (CLit CHR '','')) (Rep 2 (Some 2) (Chr CDigit))]"

text \<open>The copy in \<^verbatim>\<open>pipeline/parsers/recursos.py\<close>, imported by the expense and program
  parsers, has the same body.  The argument is \<open>None\<close> for Python's \<^verbatim>\<open>None\<close>.\<close>

definition parse_amount_ar :: "string option \<Rightarrow> exn + pyfloat" where
  "parse_amount_ar value =
     (case value of
        None \<Rightarrow> Inl (ValueError ''Valor vacio.'')
      | Some v \<Rightarrow>
          (let s = strip v in
           if s = [] then Inl (ValueError ''Valor vacio.'')
           else py_float (replace CHR '','' ''.'' (replace CHR ''.'' [] s))))"

definition find_amounts :: "string \<Rightarrow> string list" where
  "find_amounts text = re_findall AMOUNT_RE text"

subsection \<open>\<^verbatim>\<open>normalize_number\<close> (\<^verbatim>\<open>ingest/llm_utils.py\<close>)\<close>



section \<open>Structured LLM extractor: the retry loop\<close>

text \<open>
  \<^verbatim>\<open>extract_pdf_single_shot\<close>, \<^verbatim>\<open>extract_metas_only\<close>
  (\<^verbatim>\<open>single_shot/openai_extract.py\<close>) and \<^verbatim>\<open>call_structured_output\<close>
  (\<^verbatim>\<open>ingest/llm_utils.py\<close>) share one loop.  The transport is external: at attempt
  \<open>n\<close>, \<open>responses_create n\<close> is the outcome of the native block (upload,
  \<^verbatim>\<open>responses.create\<close>, \<^verbatim>\<open>json.loads\<close> of its text) and \<open>chat_create n\<close>
  the outcome of the text extraction and \<^verbatim>\<open>chat.completions.create\<close>: the message
  content, or the exception raised.  \<^verbatim>\<open>time.sleep\<close> is modelled by the list of
  the requested delays.
\<close>

record 'p llm_client =
  has_responses :: bool
  responses_create :: "nat \<Rightarrow> exn + 'p"
  chat_create :: "nat \<Rightarrow> exn + string option"
  json_loads :: "string \<Rightarrow> exn + 'p"
  json_validate :: "'p \<Rightarrow> exn option"

definition chat_path :: "'p llm_client \<Rightarrow> nat \<Rightarrow> exn + 'p" where
  "chat_path c n =
     (case chat_create c n of
        Inl e \<Rightarrow> Inl e
      | Inr text \<Rightarrow>
          if or_empty text = [] then Inl (RuntimeError ''Respuesta vacia del LLM.'' None)
          else (case json_loads c (or_empty text) of
                  Inl e \<Rightarrow> Inl e
                | Inr parsed \<Rightarrow>
                    (case json_validate c parsed of
                       Some e \<Rightarrow> Inl e
                     | None \<Rightarrow> Inr parsed)))"

fun response_format_type_error :: "exn \<Rightarrow> bool" where
  "response_format_type_error (TypeError m) = contains m ''response_format''"
| "response_format_type_error e = False"

text \<open>One pass through the body of the \<^verbatim>\<open>try\<close>: the outcome and the new value of
  \<^verbatim>\<open>use_responses\<close>.\<close>

definition attempt_body :: "'p llm_client \<Rightarrow> bool \<Rightarrow> nat \<Rightarrow> (exn + 'p) \<times> bool" where
  "attempt_body c use_responses n =
     (if use_responses then
        (case responses_create c n of
           Inr p \<Rightarrow> (Inr p, use_responses)
         | Inl e \<Rightarrow>
             if response_format_type_error e then (chat_path c n, False)
             else (Inl e, use_responses))
      else (chat_path c n, use_responses))"

text \<open>\<^verbatim>\<open>for attempt in range(max_retries + 1)\<close>: the first argument after the
  parameters counts the iterations left.  The result is the outcome and the delays slept.\<close>

fun retry_loop ::
  "'p llm_client \<Rightarrow> string \<Rightarrow> string \<Rightarrow> int \<Rightarrow> rat \<Rightarrow> nat \<Rightarrow> nat \<Rightarrow> bool \<Rightarrow> exn option \<Rightarrow> rat list
     \<Rightarrow> (exn + 'p) \<times> rat list" where
  "retry_loop c msg msg_end max_retries retry_sleep_sec 0 attempt use_responses last_error sleeps =
     (Inl (RuntimeError msg_end last_error), sleeps)"
| "retry_loop c msg msg_end max_retries retry_sleep_sec (Suc k) attempt use_responses last_error sleeps =
     (case attempt_body c use_responses attempt of
        (Inr p, u) \<Rightarrow> (Inr p, sleeps)
      | (Inl e, u) \<Rightarrow>
          if int attempt < max_retries then
            retry_loop c msg msg_end max_retries retry_sleep_sec k (Suc attempt) u (Some e)
              (sleeps @ [retry_sleep_sec * of_nat (attempt + 1)])
          else (Inl (RuntimeError (msg @ exn_str e) (Some e)), sleeps))"

definition extract_pdf_single_shot :: "'p llm_client \<Rightarrow> int \<Rightarrow> rat \<Rightarrow> (exn + 'p) \<times> rat list" where
  "extract_pdf_single_shot c max_retries retry_sleep_sec =
     retry_loop c ''LLM fallo despues de reintentos: '' ''LLM fallo.'' max_retries retry_sleep_sec
       (nat (max_retries + 1)) 0 (has_responses c) None []"

definition call_structured_output :: "'p llm_client \<Rightarrow> int \<Rightarrow> rat \<Rightarrow> (exn + 'p) \<times> rat list" where
  "call_structured_output c max_retries retry_sleep_sec =
     retry_loop c ''LLM fallo despues de reintentos: '' ''LLM fallo.'' max_retries retry_sleep_sec
       (nat (max_retries + 1)) 0 (has_responses c) None []"

definition extract_metas_only :: "'p llm_client \<Rightarrow> int \<Rightarrow> rat \<Rightarrow> (exn + 'p) \<times> rat list" where
  "extract_metas_only c max_retries retry_sleep_sec =
     retry_loop c ''LLM fallo despues de reintentos (metas only): '' ''LLM fallo metas.''
       max_retries retry_sleep_sec (nat (max_retries + 1)) 0 (has_responses c) None []"

text \<open>The value of \<^verbatim>\<open>use_responses\<close> at the start of attempt \<open>n\<close> and the outcome of
  attempt \<open>n\<close>, when the loop gets that far.\<close>

fun use_at :: "'p llm_client \<Rightarrow> nat \<Rightarrow> bool" where
  "use_at c 0 = has_responses c"
| "use_at c (Suc n) = snd (attempt_body c (use_at c n) n)"

definition attempt_result :: "'p llm_client \<Rightarrow> nat \<Rightarrow> exn + 'p" where
  "attempt_result c n = fst (attempt_body c (use_at c n) n)"

definition attempt_fails :: "'p llm_client \<Rightarrow> nat \<Rightarrow> bool" where
  "attempt_fails c n = (case attempt_result c n of Inl e \<Rightarrow> True | Inr p \<Rightarrow> False)"

definition attempt_error :: "'p llm_client \<Rightarrow> nat \<Rightarrow> exn" where
  "attempt_error c n = (case attempt_result c n of Inl e \<Rightarrow> e | Inr p \<Rightarrow> OtherError [])"

text \<open>The backoff schedule after \<open>k\<close> failed attempts:
  \<^verbatim>\<open>retry_sleep_sec * 1, ..., retry_sleep_sec * k\<close>.\<close>

definition backoff :: "rat \<Rightarrow> nat \<Rightarrow> rat list" where
  "backoff retry_sleep_sec k = map (\<lambda>i. retry_sleep_sec * of_nat (i + 1)) [0..<k]"

section \<open>Single-shot pipeline (\<^verbatim>\<open>single_shot/pipeline.py\<close>)\<close>

text \<open>The rows of the LLM payload; a field is \<open>None\<close> when the key is absent or null.\<close>

record juri_item =
  ji_Juri_Codigo :: "string option"
  ji_Juri_Nombre :: "string option"
  ji_Juri_Grupo :: "string option"

record prog_item =
  pi_Juri_Codigo :: "string option"
  pi_Prog_Codigo :: "string option"
  pi_Prog_Nombre :: "string option"
  pi_Prog_Vigente :: "rat option"
  pi_Prog_Preventivo :: "rat option"
  pi_Prog_Compromiso :: "rat option"
  pi_Prog_Devengado :: "rat option"
  pi_Prog_Pagado :: "rat option"

record meta_item =
  mi_Meta_Codigo :: "string option"
  mi_Meta_Nombre :: "string option"
  mi_Meta_Unidad :: "string option"
  mi_Meta_Anual :: "rat option"
  mi_Meta_Parcial :: "rat option"
  mi_Meta_Ejecutado :: "rat option"
  mi_Juri_Codigo :: "string option"
  mi_Prog_Codigo :: "string option"
  mi_Prog_Nombre :: "string option"

record mov_item =
  mo_MovTes_Tipo :: "string option"
  mo_MovTes_Importe :: "rat option"

record payload =
  bd_jurisdiccion :: "juri_item list option"
  bd_programas :: "prog_item list option"
  bd_metas :: "meta_item list option"
  bd_movimientosTesoreria :: "mov_item list option"

text \<open>\<^verbatim>\<open>payload.get(key, [])\<close>.\<close>

fun get_list :: "'a list option \<Rightarrow> 'a list" where
  "get_list None = []"
| "get_list (Some xs) = xs"

text \<open>An f-string field: \<^verbatim>\<open>None\<close> prints as \<^verbatim>\<open>None\<close>.\<close>

fun fmt :: "string option \<Rightarrow> string" where
  "fmt None = ''None''"
| "fmt (Some s) = s"

subsection \<open>The goals-only second pass of \<^verbatim>\<open>run_single_shot\<close>\<close>



subsection \<open>Jurisdictions and programs\<close>


text \<open>A dictionary whose values may be \<^verbatim>\<open>None\<close>, and \<^verbatim>\<open>d.get(k)\<close>.\<close>

type_synonym 'k id_dict = "'k \<rightharpoonup> dbid option"

definition dict_get :: "'k id_dict \<Rightarrow> 'k \<Rightarrow> dbid option" where
  "dict_get d k = (case d k of None \<Rightarrow> None | Some v \<Rightarrow> v)"









subsection \<open>Goals\<close>

record meta_row =
  mr_ID_Programa :: "dbid option"
  mr_Meta_Nombre :: "string option"
  mr_Meta_Unidad :: "string option"
  mr_Meta_Anual :: "rat option"
  mr_Meta_Parcial :: "rat option"
  mr_Meta_Ejecutado :: "rat option"
  mr_Meta_Observacion :: "string option"

definition meta_key :: "meta_item \<Rightarrow> string" where
  "meta_key item =
     (let juri_codigo = strip (or_empty (mi_Juri_Codigo item));
          prog_codigo = strip (or_empty (mi_Prog_Codigo item))
      in if juri_codigo \<noteq> [] \<and> prog_codigo \<noteq> [] then juri_codigo @ ''::'' @ prog_codigo
         else prog_codigo)"

definition mk_meta_row :: "dbid option \<Rightarrow> meta_item \<Rightarrow> meta_row" where
  "mk_meta_row prog_id item =
     \<lparr>mr_ID_Programa = prog_id, mr_Meta_Nombre = mi_Meta_Nombre item,
      mr_Meta_Unidad = mi_Meta_Unidad item, mr_Meta_Anual = mi_Meta_Anual item,
      mr_Meta_Parcial = mi_Meta_Parcial item, mr_Meta_Ejecutado = mi_Meta_Ejecutado item,
      mr_Meta_Observacion = None\<rparr>"

text \<open>\<^verbatim>\<open>_map_metas\<close>: the loop body, on \<^verbatim>\<open>(rows, warnings, unresolved)\<close>.\<close>

definition map_metas_step ::
  "string id_dict \<Rightarrow> meta_row list \<times> string list \<times> meta_item list \<Rightarrow> meta_item
     \<Rightarrow> meta_row list \<times> string list \<times> meta_item list" where
  "map_metas_step program_mapping acc item =
     (let prog_id = dict_get program_mapping (meta_key item) in
      if \<not> truthy_id prog_id then
        (fst acc, fst (snd acc) @ [''Meta sin programa: '' @ fmt (mi_Meta_Nombre item)],
         snd (snd acc) @ [item])
      else (fst acc @ [mk_meta_row prog_id item], fst (snd acc), snd (snd acc)))"

definition map_metas ::
  "payload \<Rightarrow> string id_dict \<Rightarrow> meta_row list \<times> string list \<times> meta_item list" where
  "map_metas payload program_mapping =
     foldl (map_metas_step program_mapping) ([], [], []) (get_list (bd_metas payload))"

text \<open>Lines 389--395 of \<^verbatim>\<open>run_single_shot\<close>: the goals are mapped, the unresolved ones
  are logged and, when a staging table is configured, inserted there
  (\<^verbatim>\<open>insert_metas_staging\<close>); then the resolved rows are upserted.  The store and the log
  are external; the record lists what is handed to them.\<close>

record metas_routing =
  rt_warnings :: "string list"
  rt_logged :: "meta_item list list"
  rt_staged :: "(string \<times> meta_item list) list"
  rt_upserted :: "meta_row list"

definition route_metas :: "string option \<Rightarrow> payload \<Rightarrow> string id_dict \<Rightarrow> string list \<Rightarrow> metas_routing" where
  "route_metas metas_staging_table payload program_mapping warnings =
     (case map_metas payload program_mapping of
        (metas_rows, meta_warnings, metas_unresolved) \<Rightarrow>
          \<lparr>rt_warnings = warnings @ meta_warnings,
           rt_logged = (if metas_unresolved \<noteq> [] then [metas_unresolved] else []),
           rt_staged =
             (if metas_unresolved \<noteq> [] \<and> or_empty metas_staging_table \<noteq> []
              then [(or_empty metas_staging_table, metas_unresolved)] else []),
           rt_upserted = metas_rows\<rparr>)"


section \<open>Rows produced by the deterministic parsers\<close>




text \<open>A dictionary row of \<^verbatim>\<open>parse_metas_from_text\<close>.\<close>

record meta_parsed =
  mp_Juri_Codigo :: "string option"
  mp_Prog_Codigo :: "string option"
  mp_Prog_Nombre :: "string option"
  mp_Meta_Nombre :: string
  mp_Meta_Unidad :: "string option"
  mp_Meta_Anual :: "pyfloat option"
  mp_Meta_Parcial :: "pyfloat option"
  mp_Meta_Ejecutado :: "pyfloat option"
  mp_Meta_Observacion :: "string option"

section \<open>The runner (\<^verbatim>\<open>pipeline/runner.py\<close>, \<^verbatim>\<open>run_document\<close>)\<close>

subsection \<open>Step 9: the jurisdictions written by the run\<close>



subsection \<open>Step 10: jurisdiction keys to identifiers\<close>


subsection \<open>Step 11: the program rows\<close>






subsection \<open>Step 15: the goal rows\<close>

record runner_meta_row =
  rm_ID_Programa :: "dbid option"
  rm_Meta_Nombre :: string
  rm_Meta_Unidad :: "string option"
  rm_Meta_Anual :: "pyfloat option"
  rm_Meta_Parcial :: "pyfloat option"
  rm_Meta_Ejecutado :: "pyfloat option"
  rm_Meta_Observacion :: "string option"

definition runner_prog_id ::
  "(string \<times> string) id_dict \<Rightarrow> (string \<times> string) id_dict \<Rightarrow> meta_parsed \<Rightarrow> dbid option" where
  "runner_prog_id prog_by_key prog_by_name m =
     (let juri_code = strip (or_empty (mp_Juri_Codigo m));
          prog_code = strip (or_empty (mp_Prog_Codigo m));
          prog_name = lower (strip (or_empty (mp_Prog_Nombre m)));
          prog_id = (if juri_code \<noteq> [] \<and> prog_code \<noteq> []
                     then dict_get prog_by_key (juri_code, prog_code) else None)
      in if \<not> truthy_id prog_id \<and> juri_code \<noteq> [] \<and> prog_name \<noteq> []
         then dict_get prog_by_name (juri_code, prog_name) else prog_id)"

definition mk_runner_meta_row :: "dbid option \<Rightarrow> meta_parsed \<Rightarrow> runner_meta_row" where
  "mk_runner_meta_row prog_id m =
     \<lparr>rm_ID_Programa = prog_id, rm_Meta_Nombre = mp_Meta_Nombre m,
      rm_Meta_Unidad = mp_Meta_Unidad m, rm_Meta_Anual = mp_Meta_Anual m,
      rm_Meta_Parcial = mp_Meta_Parcial m, rm_Meta_Ejecutado = mp_Meta_Ejecutado m,
      rm_Meta_Observacion = mp_Meta_Observacion m\<rparr>"

definition runner_meta_warning :: "meta_parsed \<Rightarrow> string" where
  "runner_meta_warning m =
     ''No se encontro programa para meta: '' @ strip (or_empty (mp_Juri_Codigo m)) @ '' ''
       @ strip (or_empty (mp_Prog_Codigo m)) @ '' '' @ mp_Meta_Nombre m"

definition runner_meta_step ::
  "(string \<times> string) id_dict \<Rightarrow> (string \<times> string) id_dict
     \<Rightarrow> runner_meta_row list \<times> string list \<Rightarrow> meta_parsed \<Rightarrow> runner_meta_row list \<times> string list" where
  "runner_meta_step prog_by_key prog_by_name acc m =
     (let prog_id = runner_prog_id prog_by_key prog_by_name m in
      if \<not> truthy_id prog_id then (fst acc, snd acc @ [runner_meta_warning m])
      else (fst acc @ [mk_runner_meta_row prog_id m], snd acc))"

text \<open>The loop over \<^verbatim>\<open>metas_raw\<close>: all that the runner keeps of the goals is the rows
  inserted and the warnings list.\<close>

definition runner_metas_rows ::
  "(string \<times> string) id_dict \<Rightarrow> (string \<times> string) id_dict \<Rightarrow> meta_parsed list \<Rightarrow> string list
     \<Rightarrow> runner_meta_row list \<times> string list" where
  "runner_metas_rows prog_by_key prog_by_name metas_raw warnings =
     foldl (runner_meta_step prog_by_key prog_by_name) ([], warnings) metas_raw"

section \<open>Resolution predicates and example data\<close>


definition meta_resolves :: "string id_dict \<Rightarrow> meta_item \<Rightarrow> bool" where
  "meta_resolves program_mapping item = truthy_id (dict_get program_mapping (meta_key item))"


definition runner_meta_resolves ::
  "(string \<times> string) id_dict \<Rightarrow> (string \<times> string) id_dict \<Rightarrow> meta_parsed \<Rightarrow> bool" where
  "runner_meta_resolves prog_by_key prog_by_name m = truthy_id (runner_prog_id prog_by_key prog_by_name m)"

text \<open>A transport whose native call fails twice and then answers, and one that always
  fails.\<close>

definition flaky_client :: "nat llm_client" where
  "flaky_client =
     \<lparr>has_responses = True,
      responses_create = (\<lambda>n. if n < 2 then Inl (OtherError ''timeout'') else Inr 7),
      chat_create = (\<lambda>n. Inl (OtherError ''unused'')),
      json_loads = (\<lambda>s. Inl (ValueError ''unused'')),
      json_validate = (\<lambda>p. None)\<rparr>"

definition dead_client :: "nat llm_client" where
  "dead_client =
     \<lparr>has_responses = False,
      responses_create = (\<lambda>n. Inl (OtherError ''unused'')),
      chat_create = (\<lambda>n. Inr (Some '''')),
      json_loads = (\<lambda>s. Inl (ValueError ''unused'')),
      json_validate = (\<lambda>p. None)\<rparr>"


definition ex_prog_item :: "string \<Rightarrow> string \<Rightarrow> prog_item" where
  "ex_prog_item juri name =
     \<lparr>pi_Juri_Codigo = Some juri, pi_Prog_Codigo = Some ''01'', pi_Prog_Nombre = Some name,
      pi_Prog_Vigente = Some 1000, pi_Prog_Preventivo = Some 900, pi_Prog_Compromiso = Some 850,
      pi_Prog_Devengado = Some 800, pi_Prog_Pagado = Some 750\<rparr>"

definition ex_meta_item :: "string \<Rightarrow> string \<Rightarrow> meta_item" where
  "ex_meta_item juri name =
     \<lparr>mi_Meta_Codigo = None, mi_Meta_Nombre = Some name, mi_Meta_Unidad = None,
      mi_Meta_Anual = Some 100, mi_Meta_Parcial = Some 50, mi_Meta_Ejecutado = Some 30,
      mi_Juri_Codigo = Some juri, mi_Prog_Codigo = Some ''01'', mi_Prog_Nombre = None\<rparr>"

definition ex_payload :: payload where
  "ex_payload =
     \<lparr>bd_jurisdiccion =
        Some [\<lparr>ji_Juri_Codigo = Some ''1110100000'', ji_Juri_Nombre = Some ''Departamento Ejecutivo'',
               ji_Juri_Grupo = None\<rparr>],
      bd_programas = Some [ex_prog_item ''1110100000'' ''Salud'', ex_prog_item ''9990000000'' ''Obras''],
      bd_metas = Some [ex_meta_item ''1110100000'' ''Consultas'', ex_meta_item ''9990000000'' ''Cordones''],
      bd_movimientosTesoreria = None\<rparr>"



definition ex_meta_parsed :: meta_parsed where
  "ex_meta_parsed =
     \<lparr>mp_Juri_Codigo = Some ''9990000000'', mp_Prog_Codigo = Some ''01'', mp_Prog_Nombre = Some ''Obras'',
      mp_Meta_Nombre = ''Cordones'', mp_Meta_Unidad = Some ''Metro'', mp_Meta_Anual = Some (Finite 100),
      mp_Meta_Parcial = Some (Finite 50), mp_Meta_Ejecutado = Some (Finite 30),
      mp_Meta_Observacion = None\<rparr>"

section \<open>Properties of the pattern matcher\<close>


lemma rep_sound:
  assumes m: "\<And>p s g p' s' g'. (p', s', g') \<in> set (m (p, s, g)) \<Longrightarrow> \<exists>w\<in>A. s = w @ s'"
  shows "(p', s', g') \<in> set (rep m lo hi (p, s, g))
         \<Longrightarrow> \<exists>n w. lo \<le> n \<and> n \<le> hi \<and> w \<in> pow A n \<and> s = w @ s'"
proof (induction hi arbitrary: lo p s g)
  case 0
  then show ?case by (auto split: if_splits)
next
  case (Suc hi)
  from Suc.prems consider
    (more) p1 s1 g1 where "(p1, s1, g1) \<in> set (m (p, s, g))"
      "(p', s', g') \<in> set (rep m (lo - 1) hi (p1, s1, g1))"
    | (stop) "lo = 0" "(p', s', g') = (p, s, g)"
    by (auto split: if_splits)
  then show ?case
  proof cases
    case more
    from m [OF more(1)] obtain u where u: "u \<in> A" "s = u @ s1" by blast
    from Suc.IH [OF more(2)] obtain n w
      where n: "lo - 1 \<le> n" "n \<le> hi" "w \<in> pow A n" "s1 = w @ s'" by blast
    have "u @ w \<in> pow A (Suc n)" using u n by auto
    moreover have "s = (u @ w) @ s'" using u n by simp
    moreover have "lo \<le> Suc n" "Suc n \<le> Suc hi" using n by auto
    ultimately show ?thesis by blast
  next
    case stop
    then have "[] \<in> pow A 0" "s = [] @ s'" by auto
    with stop show ?thesis by (metis le0)
  qed
qed

lemma rmatch_sound:
  "(p', s', g') \<in> set (rmatch r (p, s, g)) \<Longrightarrow> \<exists>w\<in>lang r. s = w @ s'"
proof (induction r arbitrary: p s g p' s' g')
  case (Chr k)
  then show ?case by (auto split: list.splits if_splits)
next
  case (Seq a b)
  from Seq.prems obtain p1 s1 g1 where 1: "(p1, s1, g1) \<in> set (rmatch a (p, s, g))"
    and 2: "(p', s', g') \<in> set (rmatch b (p1, s1, g1))" by auto
  from Seq.IH(1) [OF 1] obtain u where "u \<in> lang a" "s = u @ s1" by blast
  moreover from Seq.IH(2) [OF 2] obtain v where "v \<in> lang b" "s1 = v @ s'" by blast
  ultimately have "u @ v \<in> lang (Seq a b)" "s = (u @ v) @ s'" by auto
  then show ?case by blast
next
  case (Alt a b)
  from Alt.prems consider "(p', s', g') \<in> set (rmatch a (p, s, g))"
    | "(p', s', g') \<in> set (rmatch b (p, s, g))" by auto
  then show ?case
  proof cases
    case 1
    from Alt.IH(1) [OF 1] show ?thesis by auto
  next
    case 2
    from Alt.IH(2) [OF 2] show ?thesis by auto
  qed
next
  case (Opt a)
  from Opt.prems consider "(p', s', g') \<in> set (rmatch a (p, s, g))"
    | "s' = s" by auto
  then show ?case
  proof cases
    case 1
    from Opt.IH [OF 1] show ?thesis by auto
  next
    case 2
    then show ?thesis by simp
  qed
next
  case (Rep lo hi a)
  let ?h = "case hi of Some h \<Rightarrow> h | None \<Rightarrow> length s"
  from Rep.prems have "(p', s', g') \<in> set (rep (rmatch a) lo ?h (p, s, g))" by simp
  from rep_sound [of "rmatch a" "lang a", OF _ this] Rep.IH
  obtain n w where "lo \<le> n" "n \<le> ?h" "w \<in> pow (lang a) n" "s = w @ s'" by blast
  then have "w \<in> lang (Rep lo hi a)" by (auto split: option.splits)
  with \<open>s = w @ s'\<close> show ?case by blast
next
  case (Grp a)
  from Grp.prems obtain g1 where "(p', s', g1) \<in> set (rmatch a (p, s, g))" by auto
  from Grp.IH [OF this] show ?case by simp
next
  case Bol
  then show ?case by (auto split: if_splits)
next
  case Eol
  then show ?case by (auto split: if_splits)
next
  case WordB
  then show ?case by (auto split: if_splits)
qed

lemma match_here_lang:
  "match_here r p s = Some (n, g) \<Longrightarrow> n \<le> length s \<and> take n s \<in> lang r"
proof -
  assume "match_here r p s = Some (n, g)"
  then obtain p' s' ms where h: "rmatch r (p, s, []) = (p', s', g) # ms" and n: "n = length s - length s'"
    by (auto simp: match_here_def split: list.splits)
  then have "(p', s', g) \<in> set (rmatch r (p, s, []))" by simp
  from rmatch_sound [OF this] obtain w where "w \<in> lang r" "s = w @ s'" by blast
  with n show ?thesis by simp
qed

lemma findall_from_lang:
  "t \<in> set (findall_from r k p s) \<Longrightarrow> t \<in> lang r"
proof (induction r k p s rule: findall_from.induct)
  case (1 r k p)
  then show ?case by simp
next
  case (2 r k p c cs)
  then show ?case by simp
next
  case (3 r p c cs)
  show ?case
  proof (cases "match_here r p (c # cs)")
    case None
    with 3 show ?thesis by simp
  next
    case (Some ng)
    obtain n g where ng: "ng = (n, g)" by (cases ng)
    with 3 Some match_here_lang [of r p "c # cs" n g] show ?thesis by auto
  qed
qed

lemma re_findall_lang: "t \<in> set (re_findall r s) \<Longrightarrow> t \<in> lang r"
  by (simp add: re_findall_def findall_from_lang)



lemma is_digit_cases:
  assumes "is_digit c"
  obtains "c = CHR ''0''" | "c = CHR ''1''" | "c = CHR ''2''" | "c = CHR ''3''" | "c = CHR ''4''"
    | "c = CHR ''5''" | "c = CHR ''6''" | "c = CHR ''7''" | "c = CHR ''8''" | "c = CHR ''9''"
  using assms unfolding is_digit_def by auto

lemma is_digit_chars:
  assumes "is_digit c"
  shows "c \<noteq> CHR ''.''" "c \<noteq> CHR '',''" "c \<noteq> CHR ''-''" "c \<noteq> CHR ''+''"
    "c \<noteq> CHR ''_''" "\<not> is_space c" "lower_char c = c"
  using assms by (cases rule: is_digit_cases; simp add: is_space_def lower_char_def)+




lemma lang_digit: "u \<in> lang (Chr CDigit) \<longleftrightarrow> (\<exists>c. u = [c] \<and> is_digit c)"
  by auto

lemma pow_digits:
  "w \<in> pow (lang (Chr CDigit)) n \<Longrightarrow> length w = n \<and> list_all is_digit w"
proof (induction n arbitrary: w)
  case 0
  then show ?case by simp
next
  case (Suc n)
  then obtain u v where "w = u @ v" "u \<in> lang (Chr CDigit)" "v \<in> pow (lang (Chr CDigit)) n"
    by auto
  with Suc.IH [of v] show ?case unfolding lang_digit by auto
qed

lemma lang_rep_exact:
  "u \<in> lang (Rep k (Some k) a) \<longleftrightarrow> u \<in> pow (lang a) k"
  by (auto simp: le_antisym)

lemma lang_group:
  assumes "u \<in> lang (Seq (Chr (CLit CHR ''.'')) (Rep 3 (Some 3) (Chr CDigit)))"
  shows "list_all (\<lambda>c. is_digit c \<or> c = CHR ''.'') u"
proof -
  from assms obtain a x where "u = a @ x" "a \<in> lang (Chr (CLit CHR ''.''))"
    "x \<in> lang (Rep 3 (Some 3) (Chr CDigit))"
    unfolding lang.simps(2) by blast
  then have "u = CHR ''.'' # x" "x \<in> pow (lang (Chr CDigit)) 3"
    unfolding lang_rep_exact by auto
  with pow_digits [of x 3] show ?thesis by (auto simp: list_all_iff)
qed

lemma pow_group:
  "w \<in> pow (lang (Seq (Chr (CLit CHR ''.'')) (Rep 3 (Some 3) (Chr CDigit)))) n
     \<Longrightarrow> list_all (\<lambda>c. is_digit c \<or> c = CHR ''.'') w"
proof (induction n arbitrary: w)
  case 0
  then show ?case by simp
next
  case (Suc n)
  then obtain u v where w: "w = u @ v"
    and u: "u \<in> lang (Seq (Chr (CLit CHR ''.'')) (Rep 3 (Some 3) (Chr CDigit)))"
    and v: "v \<in> pow (lang (Seq (Chr (CLit CHR ''.'')) (Rep 3 (Some 3) (Chr CDigit)))) n"
    unfolding pow.simps by blast
  from lang_group [OF u] Suc.IH [OF v] w show ?case by simp
qed



lemma lang_AMOUNT_RE:
  assumes "w \<in> lang AMOUNT_RE"
  obtains sg body d1 d2 where "w = sg @ body @ [CHR '','', d1, d2]"
    "sg = [] \<or> sg = ''-''" "body \<noteq> []" "is_digit (hd body)"
    "list_all (\<lambda>c. is_digit c \<or> c = CHR ''.'') body" "is_digit d1" "is_digit d2"
proof -
  let ?G = "Seq (Chr (CLit CHR ''.'')) (Rep 3 (Some 3) (Chr CDigit))"
  from assms have "w \<in> lang (Seq (Opt (Chr (CLit CHR ''-'')))
      (Seq (Rep 1 (Some 3) (Chr CDigit))
        (Seq (Rep 0 None ?G) (Seq (Chr (CLit CHR '','')) (Rep 2 (Some 2) (Chr CDigit))))))"
    by (simp only: AMOUNT_RE_def seqs.simps)
  then obtain s1 r1 where 1: "w = s1 @ r1" "s1 \<in> lang (Opt (Chr (CLit CHR ''-'')))"
    "r1 \<in> lang (Seq (Rep 1 (Some 3) (Chr CDigit))
        (Seq (Rep 0 None ?G) (Seq (Chr (CLit CHR '','')) (Rep 2 (Some 2) (Chr CDigit)))))"
    unfolding lang.simps(2) [of "Opt (Chr (CLit CHR ''-''))"] by blast
  from 1(3) obtain s2 r2 where 2: "r1 = s2 @ r2" "s2 \<in> lang (Rep 1 (Some 3) (Chr CDigit))"
    "r2 \<in> lang (Seq (Rep 0 None ?G) (Seq (Chr (CLit CHR '','')) (Rep 2 (Some 2) (Chr CDigit))))"
    unfolding lang.simps(2) [of "Rep 1 (Some 3) (Chr CDigit)"] by blast
  from 2(3) obtain s3 r3 where 3: "r2 = s3 @ r3" "s3 \<in> lang (Rep 0 None ?G)"
    "r3 \<in> lang (Seq (Chr (CLit CHR '','')) (Rep 2 (Some 2) (Chr CDigit)))"
    unfolding lang.simps(2) [of "Rep 0 None ?G"] by blast
  from 3(3) obtain s4 x where 4: "r3 = s4 @ x" "s4 \<in> lang (Chr (CLit CHR '',''))"
    "x \<in> lang (Rep 2 (Some 2) (Chr CDigit))"
    unfolding lang.simps(2) [of "Chr (CLit CHR '','')"] by blast
  from 1(2) have sg: "s1 = [] \<or> s1 = ''-''" by auto
  from 2(2) obtain n where n: "1 \<le> n" "s2 \<in> pow (lang (Chr CDigit)) n"
    unfolding lang.simps(5) by blast
  with pow_digits [of s2 n] have d2: "s2 \<noteq> []" "list_all is_digit s2" by auto
  from 3(2) obtain m where "s3 \<in> pow (lang ?G) m"
    unfolding lang.simps(5) by blast
  from pow_group [OF this] have d3: "list_all (\<lambda>c. is_digit c \<or> c = CHR ''.'') s3" .
  from 4(2) have s4: "s4 = '',''" by simp
  from 4(3) have "x \<in> pow (lang (Chr CDigit)) 2" unfolding lang_rep_exact .
  with pow_digits [of x 2] have "length x = 2" "list_all is_digit x" by auto
  then obtain e1 e2 where e: "x = [e1, e2]" "is_digit e1" "is_digit e2"
    by (cases x; cases "tl x") auto
  have "w = s1 @ (s2 @ s3) @ [CHR '','', e1, e2]" using 1 2 3 4 s4 e by simp
  moreover have "s2 @ s3 \<noteq> []" using d2 by simp
  moreover have "is_digit (hd (s2 @ s3))" using d2 by (cases s2) auto
  moreover have "list_all (\<lambda>c. is_digit c \<or> c = CHR ''.'') (s2 @ s3)"
    using d2 d3 by (auto simp: list_all_iff)
  ultimately show ?thesis using sg e that by blast
qed



lemma strip_chars_id:
  "s \<noteq> [] \<Longrightarrow> \<not> P (hd s) \<Longrightarrow> \<not> P (last s) \<Longrightarrow> strip_chars P s = s"
proof -
  assume a: "s \<noteq> []" "\<not> P (hd s)" "\<not> P (last s)"
  then have 1: "dropWhile P s = s" by (cases s) auto
  from a have "rev s \<noteq> []" "\<not> P (hd (rev s))" by (auto simp: hd_rev)
  then have "dropWhile P (rev s) = rev s" by (cases "rev s") auto
  with 1 show ?thesis by (simp add: strip_chars_def)
qed

lemma replace_append: "replace old new (a @ b) = replace old new a @ replace old new b"
  by (simp add: replace_def)

lemma replace_absent: "old \<notin> set s \<Longrightarrow> replace old new s = s"
  by (induction s) (auto simp: replace_def)

lemma replace_delete: "replace old [] s = filter (\<lambda>c. c \<noteq> old) s"
  by (induction s) (auto simp: replace_def)

lemma digitpart_rest_digits:
  "list_all is_digit ds \<Longrightarrow> r = [] \<or> (\<not> is_digit (hd r) \<and> hd r \<noteq> CHR ''_'')
     \<Longrightarrow> digitpart_rest (ds @ r) = (ds, r)"
proof (induction ds)
  case Nil
  then show ?case
    by (cases r rule: digitpart_rest.cases) auto
next
  case (Cons x ds)
  then have x: "is_digit x" and IH: "digitpart_rest (ds @ r) = (ds, r)" by auto
  show ?case
  proof (cases "ds @ r")
    case Nil
    with x show ?thesis by simp
  next
    case (Cons d cs)
    with x IH show ?thesis by simp
  qed
qed

lemma digitpart_digits:
  "list_all is_digit ds \<Longrightarrow> ds \<noteq> [] \<Longrightarrow> r = [] \<or> (\<not> is_digit (hd r) \<and> hd r \<noteq> CHR ''_'')
     \<Longrightarrow> digitpart (ds @ r) = (ds, r)"
  by (cases ds) (auto simp: digitpart_rest_digits)

lemma not_digit_letters:
  "\<not> is_digit CHR ''i''" "\<not> is_digit CHR ''n''" "\<not> is_digit CHR ''.''" "\<not> is_digit CHR ''-''"
  "\<not> is_digit CHR ''+''"
  by (simp_all add: is_digit_def)

lemma lower_digit_start:
  assumes "u \<noteq> []" "is_digit (hd u)"
  shows "lower u \<noteq> ''inf''" "lower u \<noteq> ''infinity''" "lower u \<noteq> ''nan''"
  using assms not_digit_letters by (cases u; auto simp: lower_def is_digit_chars(7))+

text \<open>A run of digits, a point and two digits is a float literal.\<close>

lemma float_number_decimal:
  assumes "list_all is_digit ds" "ds \<noteq> []" "is_digit d1" "is_digit d2"
  shows "float_number (ds @ [CHR ''.'', d1, d2]) = Some (of_nat (digits_val (ds @ [d1, d2])) / 100)"
proof -
  have 1: "digitpart (ds @ [CHR ''.'', d1, d2]) = (ds, [CHR ''.'', d1, d2])"
    using assms by (intro digitpart_digits) (auto simp: not_digit_letters)
  have 2: "digitpart [d1, d2] = ([d1, d2], [])"
    using digitpart_digits [of "[d1, d2]" "[]"] assms by simp
  show ?thesis
    using assms(2)
    by (simp add: float_number_def 1 2 exponent_end_def del: digitpart.simps digitpart_rest.simps)
qed

lemma not_space_minus: "\<not> is_space CHR ''-''"
  by (simp add: is_space_def)

lemma signed_digits_not_space:
  assumes "sg = [] \<or> sg = ''-''" "u \<noteq> []" "is_digit (hd u)"
  shows "\<not> is_space (hd (sg @ u))"
  using assms by (auto simp: is_digit_chars(6) not_space_minus)

lemma py_float_decimal:
  assumes "list_all is_digit ds" "ds \<noteq> []" "is_digit d1" "is_digit d2" "sg = [] \<or> sg = ''-''"
  shows "\<exists>v. py_float (sg @ ds @ [CHR ''.'', d1, d2]) = Inr (Finite v)"
proof -
  let ?u = "ds @ [CHR ''.'', d1, d2]"
  have hd: "is_digit (hd ds)" using assms(1,2) by (cases ds) auto
  have hdu: "?u \<noteq> []" "is_digit (hd ?u)" using hd assms(2) by auto
  have "\<not> is_space (hd (sg @ ?u))"
    using assms(5) hdu by (rule signed_digits_not_space)
  moreover have "\<not> is_space (last (sg @ ?u))" using assms(4) by (simp add: is_digit_chars(6))
  ultimately have st: "strip (sg @ ?u) = sg @ ?u"
    unfolding strip_def by (intro strip_chars_id) auto
  have ts: "take_sign (sg @ ?u) = (sg = ''-'', ?u)"
  proof (cases "sg = []")
    case True
    obtain c cs where "?u = c # cs" using hdu(1) by (cases ?u) auto
    moreover from this hdu(2) have "c \<noteq> CHR ''-''" "c \<noteq> CHR ''+''"
      by (auto simp: is_digit_chars)
    ultimately show ?thesis using True by simp
  next
    case False
    with assms(5) show ?thesis by simp
  qed
  from float_number_decimal [OF assms(1-4)] obtain v where "float_number ?u = Some v" by blast
  then show ?thesis
    by (simp add: py_float_def st ts lower_digit_start [OF hdu])
qed

lemma parse_amount_ar_lang:
  assumes "w \<in> lang AMOUNT_RE"
  shows "\<exists>v. parse_amount_ar (Some w) = Inr (Finite v)"
proof -
  from assms obtain sg body d1 d2 where w: "w = sg @ body @ [CHR '','', d1, d2]"
    and sg: "sg = [] \<or> sg = ''-''" and body: "body \<noteq> []" "is_digit (hd body)"
    "list_all (\<lambda>c. is_digit c \<or> c = CHR ''.'') body" and d: "is_digit d1" "is_digit d2"
    by (rule lang_AMOUNT_RE)
  let ?ds = "filter (\<lambda>c. c \<noteq> CHR ''.'') body"
  have ds: "list_all is_digit ?ds" using body(3) by (auto simp: list_all_iff)
  have ne: "?ds \<noteq> []" using body(1,2) by (cases body) (auto simp: is_digit_chars(1))
  have "is_digit (hd (body @ [CHR '','', d1, d2]))" using body by simp
  with sg have "\<not> is_space (hd (sg @ body @ [CHR '','', d1, d2]))"
    by (intro signed_digits_not_space) auto
  then have "\<not> is_space (hd w)" using w by simp
  moreover have "\<not> is_space (last w)" using w d by (simp add: is_digit_chars(6))
  moreover have "w \<noteq> []" using w by simp
  ultimately have st: "strip w = w" unfolding strip_def by (intro strip_chars_id)
  have r1: "replace CHR ''.'' [] w = sg @ ?ds @ [CHR '','', d1, d2]"
    using sg d unfolding w by (auto simp: replace_delete is_digit_chars(1))
  have "CHR '','' \<notin> set ?ds"
  proof
    assume "CHR '','' \<in> set ?ds"
    with ds have "is_digit CHR '',''" unfolding list_all_iff by blast
    then show False by (simp add: is_digit_def)
  qed
  then have r2: "replace CHR '','' ''.'' (sg @ ?ds @ [CHR '','', d1, d2]) = sg @ ?ds @ [CHR ''.'', d1, d2]"
    using sg d by (auto simp: replace_append replace_absent) (simp_all add: replace_def is_digit_chars(2))
  from py_float_decimal [OF ds ne d sg] obtain v
    where "py_float (sg @ ?ds @ [CHR ''.'', d1, d2]) = Inr (Finite v)" ..
  then show ?thesis
    using \<open>w \<noteq> []\<close> by (simp add: parse_amount_ar_def st r1 r2 Let_def)
qed


lemma rep_numeral:
  "rep m lo (numeral k) st =
     concat (map (rep m (lo - 1) (pred_numeral k)) (m st)) @ (if lo = 0 then [st] else [])"
  by (simp add: numeral_eq_Suc)

lemmas re_eval = re_findall_def re_search_def re_match_def re_sub_empty_def match_here_def
  rep_numeral is_digit_def


















section \<open>Properties of the amount normalizer\<close>

lemma ex_find_amounts:
  "find_amounts ''Salud 1.000,00 900,00'' = [''1.000,00'', ''900,00'']"
  by (simp add: find_amounts_def AMOUNT_RE_def re_eval)

text \<open>
  Claim C10.  Every text matched by the amount pattern, and so every token returned by
  \<^verbatim>\<open>find_amounts\<close> on any line, is parsed by \<^verbatim>\<open>parse_amount_ar\<close> to a finite
  number: the call does not raise.
\<close>

theorem amount_tokens_always_parse:
  "(\<forall>t\<in>set (find_amounts line). \<exists>v. parse_amount_ar (Some t) = Inr (Finite v))
   \<and> (match_here AMOUNT_RE p s = Some (n, g)
        \<longrightarrow> (\<exists>v. parse_amount_ar (Some (take n s)) = Inr (Finite v)))"
  using re_findall_lang [of _ AMOUNT_RE line] match_here_lang [of AMOUNT_RE p s n g]
    parse_amount_ar_lang
  unfolding find_amounts_def by blast

theorem amount_tokens_always_parse_witness:
  "''1.000,00'' \<in> set (find_amounts ''Salud 1.000,00 900,00'')
   \<and> (\<exists>v. parse_amount_ar (Some ''1.000,00'') = Inr (Finite v))"
proof -
  have m: "''1.000,00'' \<in> set (find_amounts ''Salud 1.000,00 900,00'')"
    by (simp add: ex_find_amounts)
  with amount_tokens_always_parse [of "''Salud 1.000,00 900,00''"] show ?thesis by blast
qed




















section \<open>Properties of the retry loop\<close>

lemma retry_loop_success:
  "a \<le> k \<Longrightarrow> k < a + rem \<Longrightarrow> int k \<le> mr \<Longrightarrow> u = use_at c a
   \<Longrightarrow> (\<And>i. a \<le> i \<Longrightarrow> i < k \<Longrightarrow> attempt_fails c i)
   \<Longrightarrow> attempt_result c k = Inr p
   \<Longrightarrow> retry_loop c msg msg_end mr r rem a u lerr sleeps
       = (Inr p, sleeps @ map (\<lambda>i. r * of_nat (i + 1)) [a..<k])"
proof (induction rem arbitrary: a u lerr sleeps)
  case 0
  then show ?case by simp
next
  case (Suc rem)
  show ?case
  proof (cases "a = k")
    case True
    from Suc.prems(6) obtain u' where "attempt_body c (use_at c k) k = (Inr p, u')"
      by (cases "attempt_body c (use_at c k) k") (auto simp: attempt_result_def)
    with True Suc.prems show ?thesis by simp
  next
    case False
    with Suc.prems have lt: "a < k" by simp
    from Suc.prems(5)[of a] lt have f: "attempt_fails c a" by simp
    then obtain e u' where ab: "attempt_body c (use_at c a) a = (Inl e, u')"
      by (cases "attempt_body c (use_at c a) a")
         (auto simp: attempt_fails_def attempt_result_def split: sum.splits)
    have u': "u' = use_at c (Suc a)" using ab by simp
    have IH: "retry_loop c msg msg_end mr r rem (Suc a) u' (Some e) (sleeps @ [r * of_nat (a + 1)])
       = (Inr p, (sleeps @ [r * of_nat (a + 1)]) @ map (\<lambda>i. r * of_nat (i + 1)) [Suc a..<k])"
      using Suc.prems lt u' by (intro Suc.IH) auto
    have "[a..<k] = a # [Suc a..<k]" using lt by (simp add: upt_conv_Cons)
    with IH ab Suc.prems lt show ?thesis by simp
  qed
qed

lemma retry_loop_exhausted:
  "int a \<le> mr \<Longrightarrow> nat mr < a + rem \<Longrightarrow> u = use_at c a
   \<Longrightarrow> (\<And>i. a \<le> i \<Longrightarrow> i \<le> nat mr \<Longrightarrow> attempt_fails c i)
   \<Longrightarrow> retry_loop c msg msg_end mr r rem a u lerr sleeps
       = (Inl (RuntimeError (msg @ exn_str (attempt_error c (nat mr))) (Some (attempt_error c (nat mr)))),
          sleeps @ map (\<lambda>i. r * of_nat (i + 1)) [a..<nat mr])"
proof (induction rem arbitrary: a u lerr sleeps)
  case 0
  then show ?case by simp
next
  case (Suc rem)
  from Suc.prems have f: "attempt_fails c a" by simp
  then obtain e u' where ab: "attempt_body c (use_at c a) a = (Inl e, u')"
    by (cases "attempt_body c (use_at c a) a")
       (auto simp: attempt_fails_def attempt_result_def split: sum.splits)
  have u': "u' = use_at c (Suc a)" using ab by simp
  have e: "attempt_error c a = e" using ab by (simp add: attempt_error_def attempt_result_def)
  show ?case
  proof (cases "int a < mr")
    case True
    have IH: "retry_loop c msg msg_end mr r rem (Suc a) u' (Some e) (sleeps @ [r * of_nat (a + 1)])
       = (Inl (RuntimeError (msg @ exn_str (attempt_error c (nat mr))) (Some (attempt_error c (nat mr)))),
          (sleeps @ [r * of_nat (a + 1)]) @ map (\<lambda>i. r * of_nat (i + 1)) [Suc a..<nat mr])"
      using Suc.prems True u' by (intro Suc.IH) auto
    have "[a..<nat mr] = a # [Suc a..<nat mr]" using True by (simp add: upt_conv_Cons)
    with IH ab Suc.prems True show ?thesis by simp
  next
    case False
    with Suc.prems have "int a = mr" by simp
    then have "nat mr = a" by auto
    with ab Suc.prems False e show ?thesis by simp
  qed
qed

text \<open>
  Claim C6.  With \<open>max_retries \<ge> 0\<close>: if the first \<open>k \<le> max_retries\<close> attempts raise and
  attempt \<open>k\<close> returns a payload, the extractor returns that payload after sleeping
  \<open>retry_sleep_sec * 1, ..., retry_sleep_sec * k\<close>; if all \<open>max_retries + 1\<close> attempts raise,
  it raises one \<^verbatim>\<open>RuntimeError\<close> whose cause is the exception of the last attempt, after
  sleeping \<open>retry_sleep_sec * 1, ..., retry_sleep_sec * max_retries\<close>.  Both
  \<^verbatim>\<open>extract_pdf_single_shot\<close> and \<^verbatim>\<open>call_structured_output\<close> do so.
\<close>

theorem llm_retry_backoff:
  "(0 \<le> max_retries \<and> k \<le> nat max_retries \<and> (\<forall>i<k. attempt_fails c i) \<and> attempt_result c k = Inr p
      \<longrightarrow> extract_pdf_single_shot c max_retries retry_sleep_sec = (Inr p, backoff retry_sleep_sec k)
        \<and> call_structured_output c max_retries retry_sleep_sec = (Inr p, backoff retry_sleep_sec k))
   \<and> (0 \<le> max_retries \<and> (\<forall>i\<le>nat max_retries. attempt_fails c i)
      \<longrightarrow> extract_pdf_single_shot c max_retries retry_sleep_sec
            = (Inl (RuntimeError (''LLM fallo despues de reintentos: '' @ exn_str (attempt_error c (nat max_retries)))
                     (Some (attempt_error c (nat max_retries)))),
               backoff retry_sleep_sec (nat max_retries))
        \<and> call_structured_output c max_retries retry_sleep_sec
            = (Inl (RuntimeError (''LLM fallo despues de reintentos: '' @ exn_str (attempt_error c (nat max_retries)))
                     (Some (attempt_error c (nat max_retries)))),
               backoff retry_sleep_sec (nat max_retries)))"
proof (intro conjI impI)
  assume a: "0 \<le> max_retries \<and> k \<le> nat max_retries \<and> (\<forall>i<k. attempt_fails c i) \<and> attempt_result c k = Inr p"
  then have *: "retry_loop c msg msg_end max_retries retry_sleep_sec (nat (max_retries + 1)) 0 (has_responses c) None []
      = (Inr p, [] @ map (\<lambda>i. retry_sleep_sec * of_nat (i + 1)) [0..<k])" for msg msg_end
    by (intro retry_loop_success) auto
  show "extract_pdf_single_shot c max_retries retry_sleep_sec = (Inr p, backoff retry_sleep_sec k)"
    using * by (simp add: extract_pdf_single_shot_def backoff_def)
  show "call_structured_output c max_retries retry_sleep_sec = (Inr p, backoff retry_sleep_sec k)"
    using * by (simp add: call_structured_output_def backoff_def)
next
  assume a: "0 \<le> max_retries \<and> (\<forall>i\<le>nat max_retries. attempt_fails c i)"
  then have *: "retry_loop c msg msg_end max_retries retry_sleep_sec (nat (max_retries + 1)) 0 (has_responses c) None []
      = (Inl (RuntimeError (msg @ exn_str (attempt_error c (nat max_retries))) (Some (attempt_error c (nat max_retries)))),
          [] @ map (\<lambda>i. retry_sleep_sec * of_nat (i + 1)) [0..<nat max_retries])" for msg msg_end
    by (intro retry_loop_exhausted) auto
  show "extract_pdf_single_shot c max_retries retry_sleep_sec
            = (Inl (RuntimeError (''LLM fallo despues de reintentos: '' @ exn_str (attempt_error c (nat max_retries)))
                     (Some (attempt_error c (nat max_retries)))),
               backoff retry_sleep_sec (nat max_retries))"
    using * by (simp add: extract_pdf_single_shot_def backoff_def)
  show "call_structured_output c max_retries retry_sleep_sec
            = (Inl (RuntimeError (''LLM fallo despues de reintentos: '' @ exn_str (attempt_error c (nat max_retries)))
                     (Some (attempt_error c (nat max_retries)))),
               backoff retry_sleep_sec (nat max_retries))"
    using * by (simp add: call_structured_output_def backoff_def)
qed

lemma flaky_client_attempts:
  "attempt_fails flaky_client 0" "attempt_fails flaky_client (Suc 0)"
  "attempt_result flaky_client (Suc (Suc 0)) = Inr 7"
  by (simp_all add: attempt_fails_def attempt_result_def attempt_body_def flaky_client_def)

lemma dead_client_attempts:
  "attempt_fails dead_client n"
proof -
  have "use_at dead_client n = False"
    by (induction n) (simp_all add: attempt_body_def dead_client_def)
  then show ?thesis
    by (simp add: attempt_fails_def attempt_result_def attempt_body_def chat_path_def dead_client_def)
qed

lemma dead_client_error:
  "attempt_error dead_client n = RuntimeError ''Respuesta vacia del LLM.'' None"
proof -
  have "use_at dead_client n = False"
    by (induction n) (simp_all add: attempt_body_def dead_client_def)
  then show ?thesis
    by (simp add: attempt_error_def attempt_result_def attempt_body_def chat_path_def dead_client_def)
qed

theorem llm_retry_backoff_witness:
  "extract_pdf_single_shot flaky_client 2 (5 / 2) = (Inr 7, [5 / 2 * 1, 5 / 2 * 2])
   \<and> call_structured_output dead_client 2 (5 / 2)
       = (Inl (RuntimeError ''LLM fallo despues de reintentos: Respuesta vacia del LLM.''
                 (Some (RuntimeError ''Respuesta vacia del LLM.'' None))),
          [5 / 2 * 1, 5 / 2 * 2])"
proof -
  have two: "nat 2 = Suc (Suc 0)" by simp
  have f: "\<forall>i<Suc (Suc 0). attempt_fails flaky_client i"
    using flaky_client_attempts by (simp add: less_Suc_eq)
  have b: "backoff r (Suc (Suc 0)) = [r * 1, r * 2]" for r
    by (simp add: backoff_def)
  have b2: "backoff r 2 = [r * 1, r * 2]" for r
    using b [of r] by (simp add: numeral_2_eq_2)
  have 1: "extract_pdf_single_shot flaky_client 2 (5 / 2) = (Inr 7, [5 / 2 * 1, 5 / 2 * 2])"
    using llm_retry_backoff [of 2 "Suc (Suc 0)" flaky_client 7 "5 / 2"] f flaky_client_attempts(3)
    by (simp only: two b) simp
  have 2: "call_structured_output dead_client 2 (5 / 2)
       = (Inl (RuntimeError ''LLM fallo despues de reintentos: Respuesta vacia del LLM.''
                 (Some (RuntimeError ''Respuesta vacia del LLM.'' None))),
          [5 / 2 * 1, 5 / 2 * 2])"
    using llm_retry_backoff [of 2 0 dead_client 0 "5 / 2"] dead_client_attempts
    by (simp add: dead_client_error b2)
  from 1 2 show ?thesis by simp
qed

section \<open>Properties of the single-shot pipeline and of the runner\<close>














lemma map_metas_foldl:
  "foldl (map_metas_step pm) (rows, ws, un) items =
     (rows @ map (\<lambda>i. mk_meta_row (dict_get pm (meta_key i)) i) (filter (meta_resolves pm) items),
      ws @ map (\<lambda>i. ''Meta sin programa: '' @ fmt (mi_Meta_Nombre i))
             (filter (\<lambda>i. \<not> meta_resolves pm i) items),
      un @ filter (\<lambda>i. \<not> meta_resolves pm i) items)"
  by (induction items arbitrary: rows ws un)
     (simp_all add: map_metas_step_def meta_resolves_def Let_def)

lemma map_metas_eq:
  "map_metas payload pm =
     (map (\<lambda>i. mk_meta_row (dict_get pm (meta_key i)) i)
        (filter (meta_resolves pm) (get_list (bd_metas payload))),
      map (\<lambda>i. ''Meta sin programa: '' @ fmt (mi_Meta_Nombre i))
        (filter (\<lambda>i. \<not> meta_resolves pm i) (get_list (bd_metas payload))),
      filter (\<lambda>i. \<not> meta_resolves pm i) (get_list (bd_metas payload)))"
  by (simp add: map_metas_def map_metas_foldl)

lemma runner_metas_foldl:
  "foldl (runner_meta_step bk bn) (rows, ws) ms =
     (rows @ map (\<lambda>m. mk_runner_meta_row (runner_prog_id bk bn m) m) (filter (runner_meta_resolves bk bn) ms),
      ws @ map runner_meta_warning (filter (\<lambda>m. \<not> runner_meta_resolves bk bn m) ms))"
  by (induction ms arbitrary: rows ws)
     (simp_all add: runner_meta_step_def runner_meta_resolves_def Let_def)

text \<open>
  Claim C8, as the code has it.  In the single-shot pipeline \<^verbatim>\<open>_map_metas\<close> returns every
  goal whose program lookup fails in the unresolved list, in order, apart from the resolved
  rows and with one warning each; \<^verbatim>\<open>run_single_shot\<close> hands a non-empty unresolved list
  to the staging table when one is configured and goes on to upsert the resolved rows.  In
  the runner a goal whose program lookup fails adds one warning and no row, the loop goes
  on, and nothing but the rows and the warnings is kept.
\<close>

theorem unresolved_goals_single_shot_and_runner:
  "map_metas payload pm =
     (map (\<lambda>i. mk_meta_row (dict_get pm (meta_key i)) i)
        (filter (meta_resolves pm) (get_list (bd_metas payload))),
      map (\<lambda>i. ''Meta sin programa: '' @ fmt (mi_Meta_Nombre i))
        (filter (\<lambda>i. \<not> meta_resolves pm i) (get_list (bd_metas payload))),
      filter (\<lambda>i. \<not> meta_resolves pm i) (get_list (bd_metas payload)))
   \<and> rt_staged (route_metas metas_staging_table payload pm warnings) =
       (if filter (\<lambda>i. \<not> meta_resolves pm i) (get_list (bd_metas payload)) \<noteq> []
           \<and> or_empty metas_staging_table \<noteq> []
        then [(or_empty metas_staging_table,
               filter (\<lambda>i. \<not> meta_resolves pm i) (get_list (bd_metas payload)))]
        else [])
   \<and> rt_upserted (route_metas metas_staging_table payload pm warnings) =
       map (\<lambda>i. mk_meta_row (dict_get pm (meta_key i)) i)
         (filter (meta_resolves pm) (get_list (bd_metas payload)))
   \<and> rt_warnings (route_metas metas_staging_table payload pm warnings) =
       warnings @ map (\<lambda>i. ''Meta sin programa: '' @ fmt (mi_Meta_Nombre i))
         (filter (\<lambda>i. \<not> meta_resolves pm i) (get_list (bd_metas payload)))
   \<and> runner_metas_rows prog_by_key prog_by_name metas_raw rwarnings =
       (map (\<lambda>m. mk_runner_meta_row (runner_prog_id prog_by_key prog_by_name m) m)
          (filter (runner_meta_resolves prog_by_key prog_by_name) metas_raw),
        rwarnings @ map runner_meta_warning
          (filter (\<lambda>m. \<not> runner_meta_resolves prog_by_key prog_by_name m) metas_raw))"
  by (simp add: map_metas_eq route_metas_def runner_metas_rows_def runner_metas_foldl)

text \<open>
  The runner on one goal whose program is unknown: no row, one warning, and the goal itself
  is in no collection of the result.
\<close>

theorem runner_drops_unresolved_goal:
  "runner_metas_rows Map.empty Map.empty [ex_meta_parsed] []
     = ([], [''No se encontro programa para meta: 9990000000 01 Cordones''])"
  by (simp add: runner_metas_rows_def runner_meta_step_def runner_prog_id_def dict_get_def
        runner_meta_warning_def ex_meta_parsed_def strip_def strip_chars_def is_space_def Let_def)

theorem unresolved_goals_single_shot_and_runner_witness:
  "map_metas ex_payload (Map.empty(''1110100000::01'' \<mapsto> Some (IdInt 3))) =
     ([mk_meta_row (Some (IdInt 3)) (ex_meta_item ''1110100000'' ''Consultas'')],
      [''Meta sin programa: Cordones''],
      [ex_meta_item ''9990000000'' ''Cordones''])
   \<and> rt_staged (route_metas (Some ''bd_metas_staging'') ex_payload
                   (Map.empty(''1110100000::01'' \<mapsto> Some (IdInt 3))) [])
       = [(''bd_metas_staging'', [ex_meta_item ''9990000000'' ''Cordones''])]"
  using unresolved_goals_single_shot_and_runner
    [where payload = ex_payload and pm = "Map.empty(''1110100000::01'' \<mapsto> Some (IdInt 3))"
       and metas_staging_table = "Some ''bd_metas_staging''" and warnings = "[]"]
  by (simp add: ex_payload_def ex_meta_item_def meta_resolves_def meta_key_def dict_get_def
        strip_def strip_chars_def is_space_def Let_def)

end
